theory Spec2Isabelle
  imports Complex_Main "HOL-Library.AList"
begin

section \<open>Data model\<close>

subsection \<open>Strings\<close>

text \<open>
  JavaScript strings are modelled as \<^typ>\<open>string\<close>. The two letters outside ASCII that
  the scripts use in literals are written as their UTF-8 bytes: z with caron is
  \<open>0xC5 0xBE\<close> and c with acute is \<open>0xC4 0x87\<close>. Searching for a substring gives the
  same answer on the bytes as on JavaScript's code units, and no script reads a string's
  length or indexes into one.
\<close>

definition zcaron :: string where
  "zcaron = [CHR 0xC5, CHR 0xBE]"


text \<open>The literal \<^verbatim>\<open>' zupanija'\<close> (with the caron), as in \<^verbatim>\<open>loc.name.replace\<close>.\<close>

definition lit_zupanija :: string where
  "lit_zupanija = '' '' @ zcaron @ ''upanija''"







subsection \<open>Numbers\<close>






subsection \<open>The data tables\<close>

text \<open>
  The three tables \<^verbatim>\<open>ZUPANIJE\<close>, \<^verbatim>\<open>GRADOVI\<close> and \<^verbatim>\<open>OPCINE\<close> are arrays of
  objects. Their TypeScript declarations are not part of the sources at hand; a row
  is modelled with the fields the two scripts read. \<open>ptype\<close> is the field
  \<^verbatim>\<open>type\<close>, \<open>place_id\<close> the field \<^verbatim>\<open>id\<close>. A field the scripts test before use
  (\<^verbatim>\<open>county_id\<close>, \<^verbatim>\<open>education_university_pct\<close>) is optional, \<open>None\<close> standing for
  a missing one; every other field is present, the census figures as numbers;
  identifiers are numbers, of which JavaScript takes \<open>0\<close> as false.
\<close>

record 'n place =
  place_id :: nat
  name :: string
  slug :: string
  ptype :: string
  county_id :: "nat option"
  county_name :: string
  population_2021 :: 'n
  change_pct :: 'n
  density :: 'n
  avg_age :: 'n
  age_65_plus_pct :: 'n
  age_0_14_pct :: 'n
  education_university_pct :: "'n option"
  male_pct :: 'n
  female_pct :: 'n

subsection \<open>Sentences and JSON values\<close>

text \<open>
  A conclusion is one of twenty fixed Croatian template strings with the values that
  are interpolated into it. The constructor stands for the template, its arguments are
  the interpolated values before formatting (\<^verbatim>\<open>toFixed\<close> is applied to them when the
  text is built), so equal sentences here are equal strings there.
\<close>

datatype 'n sentence =
    GrowthStrong 'n
  | GrowthMild 'n
  | DeclineModerate 'n
  | DeclineSignificant 'n
  | DeclineDrastic 'n
  | DensityFarAbove 'n
  | DensityAbove 'n
  | DensityBelow 'n
  | AgeFarAbove 'n
  | AgeAbove 'n
  | AgeBelow 'n
  | YouthAbove 'n
  | ElderlyAbove 'n
  | UniversityAbove 'n
  | UniversityBelow 'n
  | CountyCentre string string 'n
  | MunicipalitySmall
  | MunicipalityLarge
  | CityLarge string
  | CitySmall string

datatype 'n jsval =
    JUndefined
  | JNull
  | JStr string
  | JNum 'n
  | JStrs "string list"
  | JSentences "'n sentence list"

text \<open>An object literal is the list of its properties in the order they are written.\<close>

type_synonym 'n jsobj = "(string \<times> 'n jsval) list"

text \<open>\<^verbatim>\<open>ob[k]\<close> on an object: the value of the property, \<open>None\<close> when there is none.\<close>

definition field :: "string \<Rightarrow> 'n jsobj \<Rightarrow> 'n jsval option" where
  "field k ob = map_of ob k"

definition opt_num :: "'n option \<Rightarrow> 'n jsval" where
  "opt_num x = (case x of None \<Rightarrow> JUndefined | Some v \<Rightarrow> JNum v)"

section \<open>generate-search-index.mjs\<close>

definition search_county :: "'n place \<Rightarrow> 'n jsobj" where
  "search_county z =
     [(''name'', JStr (name z)),
      (''slug'', JStr (slug z)),
      (''type'', JStr ''zupanija''),
      (''county'', JStr ''''),
      (''pop'', JNum (population_2021 z))]"

definition search_city :: "'n place \<Rightarrow> 'n jsobj" where
  "search_city g =
     [(''name'', JStr (name g)),
      (''slug'', JStr (slug g)),
      (''type'', JStr ''grad''),
      (''county'', JStr (county_name g)),
      (''pop'', JNum (population_2021 g))]"

definition search_municipality :: "'n place \<Rightarrow> 'n jsobj" where
  "search_municipality o' =
     [(''name'', JStr (name o')),
      (''slug'', JStr (slug o')),
      (''type'', JStr ''opcina''),
      (''county'', JStr (county_name o')),
      (''pop'', JNum (population_2021 o'))]"

definition searchIndex :: "'n place list \<Rightarrow> 'n place list \<Rightarrow> 'n place list \<Rightarrow> 'n jsobj list" where
  "searchIndex zupanije gradovi opcine =
     map search_county zupanije @ map search_city gradovi @ map search_municipality opcine"

text \<open>The two spreads of \<^verbatim>\<open>compareData\<close> build the same object from a row.\<close>

definition compare_row :: "'n place \<Rightarrow> 'n jsobj" where
  "compare_row g =
     [(''name'', JStr (name g)),
      (''slug'', JStr (slug g)),
      (''type'', JStr (ptype g)),
      (''county_name'', JStr (county_name g)),
      (''population_2021'', JNum (population_2021 g)),
      (''change_pct'', JNum (change_pct g)),
      (''density'', JNum (density g)),
      (''avg_age'', JNum (avg_age g)),
      (''education_university_pct'', opt_num (education_university_pct g)),
      (''male_pct'', JNum (male_pct g)),
      (''female_pct'', JNum (female_pct g))]"

definition compareData :: "'n place list \<Rightarrow> 'n place list \<Rightarrow> 'n jsobj list" where
  "compareData gradovi opcine = map compare_row gradovi @ map compare_row opcine"

text \<open>
  The script as a whole: from the three loaded tables to the contents of
  \<^verbatim>\<open>search-index.json\<close> and \<^verbatim>\<open>locations-compare.json\<close>.
\<close>

definition generate_search_index ::
  "'n place list \<Rightarrow> 'n place list \<Rightarrow> 'n place list \<Rightarrow> 'n jsobj list \<times> 'n jsobj list" where
  "generate_search_index zupanije gradovi opcine =
     (searchIndex zupanije gradovi opcine, compareData gradovi opcine)"

section \<open>fetch-wiki-data.mjs\<close>

subsection \<open>The flat list of locations\<close>


subsection \<open>The network\<close>








subsection \<open>Wikidata\<close>


record 'n wd =
  coatOfArms :: "string option"
  photo :: "string option"
  postalCode :: "string option"
  elevation :: "'n option"
  officialWebsite :: "string option"
  licensePlate :: "string option"
  sisterCities :: "string list"

text \<open>JavaScript truthiness of a value that is a string or null/undefined.\<close>

definition truthy :: "string option \<Rightarrow> bool" where
  "truthy x = (case x of None \<Rightarrow> False | Some s \<Rightarrow> s \<noteq> [])"









subsection \<open>Wikipedia\<close>







subsection \<open>Conclusions\<close>












subsection \<open>The loop of main\<close>

text \<open>
  The body of the loop in the order of the source. The counters \<^verbatim>\<open>wikiCount\<close> and
  \<^verbatim>\<open>wikiMiss\<close>, the lines printed on the console and the pauses (\<^verbatim>\<open>sleep\<close>) change
  nothing that is written and are left out. Keys of objects (names in the result map,
  slugs in \<^verbatim>\<open>enrichment\<close>) are taken to be ordinary property names, not one of the
  names that every JavaScript object inherits.
\<close>

record 'n entry = "'n wd" +
  description :: "string option"
  thumbnail :: "string option"
  conclusions :: "'n sentence list"













subsection \<open>Clean-up and output\<close>

definition str_or_null :: "string option \<Rightarrow> 'n jsval" where
  "str_or_null x = (case x of None \<Rightarrow> JNull | Some s \<Rightarrow> JStr s)"

definition num_or_null :: "'n option \<Rightarrow> 'n jsval" where
  "num_or_null x = (case x of None \<Rightarrow> JNull | Some v \<Rightarrow> JNum v)"

text \<open>An entry as the object the loop built, its ten properties in the order of the literal.\<close>

definition entry_object :: "'n entry \<Rightarrow> 'n jsobj" where
  "entry_object e =
     [(''description'', str_or_null (description e)),
      (''thumbnail'', str_or_null (thumbnail e)),
      (''coatOfArms'', str_or_null (coatOfArms e)),
      (''photo'', str_or_null (photo e)),
      (''postalCode'', str_or_null (postalCode e)),
      (''elevation'', num_or_null (elevation e)),
      (''officialWebsite'', str_or_null (officialWebsite e)),
      (''licensePlate'', str_or_null (licensePlate e)),
      (''sisterCities'', JStrs (sisterCities e)),
      (''conclusions'', JSentences (conclusions e))]"

text \<open>\<^verbatim>\<open>if (c) delete e.k\<close>.\<close>

definition delete_if :: "bool \<Rightarrow> string \<Rightarrow> 'n jsobj \<Rightarrow> 'n jsobj" where
  "delete_if c k ob = (if c then filter (\<lambda>p. fst p \<noteq> k) ob else ob)"

definition cleanup :: "'n entry \<Rightarrow> 'n jsobj" where
  "cleanup e =
     (let o0 = entry_object e;
          o1 = delete_if (sisterCities e = []) ''sisterCities'' o0;
          o2 = delete_if (\<not> truthy (coatOfArms e)) ''coatOfArms'' o1;
          o3 = delete_if (\<not> truthy (photo e)) ''photo'' o2;
          o4 = delete_if (\<not> truthy (thumbnail e)) ''thumbnail'' o3;
          o5 = delete_if (\<not> truthy (postalCode e)) ''postalCode'' o4;
          o6 = delete_if (elevation e = None) ''elevation'' o5;
          o7 = delete_if (\<not> truthy (officialWebsite e)) ''officialWebsite'' o6;
          o8 = delete_if (\<not> truthy (licensePlate e)) ''licensePlate'' o7;
          o9 = delete_if (\<not> truthy (description e)) ''description'' o8
      in delete_if (conclusions e = []) ''conclusions'' o9)"


section \<open>The loop in closed form\<close>














section \<open>Sample data\<close>

text \<open>A county, a city and a municipality of it, and a city whose name starts with \<open>Grad\<close>.\<close>

definition istarska :: "rat place" where
  "istarska = \<lparr> place_id = 18, name = ''Istarska'' @ lit_zupanija, slug = ''istarska'',
                 ptype = ''zupanija'', county_id = None, county_name = [],
                 population_2021 = 195237, change_pct = - 6, density = 69, avg_age = 45,
                 age_65_plus_pct = 24, age_0_14_pct = 13, education_university_pct = None,
                 male_pct = 49, female_pct = 51 \<rparr>"

definition pula :: "rat place" where
  "pula = \<lparr> place_id = 1, name = ''Pula'', slug = ''pula'',
             ptype = ''grad'', county_id = Some 18, county_name = ''Istarska'' @ lit_zupanija,
             population_2021 = 52220, change_pct = - 9, density = 1000, avg_age = 46,
             age_65_plus_pct = 25, age_0_14_pct = 13, education_university_pct = Some 24,
             male_pct = 48, female_pct = 52 \<rparr>"

definition medulin :: "rat place" where
  "medulin = \<lparr> place_id = 2, name = ''Medulin'', slug = ''medulin'',
                ptype = ''opcina'', county_id = Some 18, county_name = ''Istarska'' @ lit_zupanija,
                population_2021 = 6500, change_pct = 1, density = 190, avg_age = 44,
                age_65_plus_pct = 21, age_0_14_pct = 14, education_university_pct = Some 20,
                male_pct = 49, female_pct = 51 \<rparr>"












section \<open>Properties of generate-search-index.mjs\<close>

lemma map_const_replicate: "map (\<lambda>x. c) xs = replicate (length xs) c"
  by (induction xs) simp_all

text \<open>
  C2. The search index has one entry for every row of the three tables, its length is
  the sum of their lengths, the entries come in the order counties, cities,
  municipalities with each table's order kept, every entry has exactly the properties
  name, slug, type, county and pop, and the county of a county's entry is the empty
  string.
\<close>

theorem search_index_entries:
  "length (searchIndex zupanije gradovi opcine) = length zupanije + length gradovi + length opcine
   \<and> map (field ''name'') (searchIndex zupanije gradovi opcine)
       = map (\<lambda>p. Some (JStr (name p))) (zupanije @ gradovi @ opcine)
   \<and> map (field ''slug'') (searchIndex zupanije gradovi opcine)
       = map (\<lambda>p. Some (JStr (slug p))) (zupanije @ gradovi @ opcine)
   \<and> map (field ''pop'') (searchIndex zupanije gradovi opcine)
       = map (\<lambda>p. Some (JNum (population_2021 p))) (zupanije @ gradovi @ opcine)
   \<and> map (field ''type'') (searchIndex zupanije gradovi opcine)
       = replicate (length zupanije) (Some (JStr ''zupanija''))
         @ replicate (length gradovi) (Some (JStr ''grad''))
         @ replicate (length opcine) (Some (JStr ''opcina''))
   \<and> map (field ''county'') (searchIndex zupanije gradovi opcine)
       = replicate (length zupanije) (Some (JStr []))
         @ map (\<lambda>p. Some (JStr (county_name p))) (gradovi @ opcine)
   \<and> (\<forall>e \<in> set (searchIndex zupanije gradovi opcine).
         map fst e = [''name'', ''slug'', ''type'', ''county'', ''pop''])"
proof (intro conjI)
  show "\<forall>e \<in> set (searchIndex zupanije gradovi opcine).
          map fst e = [''name'', ''slug'', ''type'', ''county'', ''pop'']"
    by (auto simp add: searchIndex_def search_county_def search_city_def search_municipality_def)
qed (simp_all add: searchIndex_def search_county_def search_city_def search_municipality_def
       field_def comp_def map_const_replicate)

theorem search_index_entries_witness:
  "length (searchIndex [istarska] [pula] [medulin]) = 3
   \<and> map fst (searchIndex [istarska] [pula] [medulin] ! 0) = [''name'', ''slug'', ''type'', ''county'', ''pop'']
   \<and> map fst (searchIndex [istarska] [pula] [medulin] ! 2) = [''name'', ''slug'', ''type'', ''county'', ''pop'']
   \<and> map (field ''county'') (searchIndex [istarska] [pula] [medulin])
       = [Some (JStr []), Some (JStr (''Istarska'' @ lit_zupanija)), Some (JStr (''Istarska'' @ lit_zupanija))]"
proof -
  have m0: "searchIndex [istarska] [pula] [medulin] ! 0 \<in> set (searchIndex [istarska] [pula] [medulin])"
    and m2: "searchIndex [istarska] [pula] [medulin] ! 2 \<in> set (searchIndex [istarska] [pula] [medulin])"
    by (simp_all add: searchIndex_def)
  from search_index_entries [of "[istarska]" "[pula]" "[medulin]"] m0 m2
  show ?thesis
    by (simp add: pula_def medulin_def del: set_append set_simps)
qed

text \<open>
  C3. The comparison index is built from the city and municipality tables alone: one
  entry for every city and then one for every municipality, each copying the row's own
  name, slug and type; the county table does not enter it.
\<close>

theorem compare_index_entries:
  "compareData gradovi opcine = map compare_row (gradovi @ opcine)
   \<and> length (compareData gradovi opcine) = length gradovi + length opcine
   \<and> map (field ''name'') (compareData gradovi opcine)
       = map (\<lambda>p. Some (JStr (name p))) (gradovi @ opcine)
   \<and> map (field ''slug'') (compareData gradovi opcine)
       = map (\<lambda>p. Some (JStr (slug p))) (gradovi @ opcine)
   \<and> map (field ''type'') (compareData gradovi opcine)
       = map (\<lambda>p. Some (JStr (ptype p))) (gradovi @ opcine)
   \<and> snd (generate_search_index zupanije gradovi opcine) = compareData gradovi opcine
   \<and> snd (generate_search_index zupanije gradovi opcine)
       = snd (generate_search_index zupanije' gradovi opcine)"
  by (simp add: compareData_def compare_row_def generate_search_index_def field_def comp_def)

section \<open>Properties of fetch-wiki-data.mjs\<close>

subsection \<open>Conclusions\<close>





subsection \<open>The loop\<close>




















subsection \<open>The look-ups of a turn\<close>



















subsection \<open>Failing look-ups\<close>

lemma map_of_filter_key:
  "map_of (filter (\<lambda>p. fst p \<noteq> k') ob) k = (if k = k' then None else map_of ob k)"
  by (induction ob) auto

lemma field_delete_if:
  "field k (delete_if c k' ob) = (if c \<and> k = k' then None else field k ob)"
  by (simp add: field_def delete_if_def map_of_filter_key)


lemma field_description_cleanup:
  "field ''description'' (cleanup e)
     = (if truthy (description e) then Some (str_or_null (description e)) else None)"
  by (simp add: cleanup_def Let_def field_delete_if) (simp add: field_def entry_object_def)


















subsection \<open>Requests in flight\<close>












end
